theory Spec2Isabelle
  imports Complex_Main "HOL-Library.AList" "HOL-Library.Product_Lexorder" "HOL-Library.Multiset"
begin

section \<open>The assessment route: applicable risks and base risk scores\<close>

text \<open>
  The request body carries \<open>userInputs\<close>, a dynamically typed object filled in by the
  form. Every field the route reads is compared with string literals by \<open>===\<close>, or
  defaulted by \<open>||\<close>, so a field is modelled as \<open>string option\<close>: \<open>None\<close> is a missing
  (undefined) field, and a value that is no string behaves like an unrecognised string.
\<close>

record userInputs =
  aiModel :: "string option"
  useCase :: "string option"
  dataSensitivity :: "string option"
  industry :: "string option"
  accuracyReq :: "string option"
  productName :: "string option"
  productManagerName :: "string option"
  productManagerEmail :: "string option"

text \<open>\<open>new Set(xs)\<close> spread back into an array: first occurrences, in insertion order.\<close>

definition setAdd :: "'a list \<Rightarrow> 'a \<Rightarrow> 'a list" where
  "setAdd acc x = (if x \<in> set acc then acc else acc @ [x])"

definition spreadNewSet :: "'a list \<Rightarrow> 'a list" where
  "spreadNewSet xs = foldl setAdd [] xs"

text \<open>The three rule conditions of \<open>determineApplicableRisks\<close>, in source order.\<close>

definition hallucinationRule :: "userInputs \<Rightarrow> bool" where
  "hallucinationRule ui \<longleftrightarrow>
     accuracyReq ui = Some ''critical'' \<or>
     accuracyReq ui = Some ''high'' \<or>
     industry ui = Some ''financial'' \<or>
     industry ui = Some ''healthcare'' \<or>
     useCase ui = Some ''decisionSupport'' \<or>
     useCase ui = Some ''dataAnalysis''"

definition promptInjectionRule :: "userInputs \<Rightarrow> bool" where
  "promptInjectionRule ui \<longleftrightarrow>
     useCase ui = Some ''customerService'' \<or>
     useCase ui = Some ''documentAnalysis'' \<or>
     aiModel ui = Some ''thirdParty'' \<or>
     aiModel ui = Some ''apiBased'' \<or>
     dataSensitivity ui = Some ''confidential'' \<or>
     dataSensitivity ui = Some ''restricted''"

definition dataLeakageRule :: "userInputs \<Rightarrow> bool" where
  "dataLeakageRule ui \<longleftrightarrow>
     aiModel ui = Some ''thirdParty'' \<or>
     aiModel ui = Some ''apiBased'' \<or>
     dataSensitivity ui = Some ''confidential'' \<or>
     dataSensitivity ui = Some ''restricted'' \<or>
     industry ui = Some ''financial'' \<or>
     industry ui = Some ''healthcare''"

definition determineApplicableRisks :: "userInputs \<Rightarrow> string list" where
  "determineApplicableRisks ui =
     (let r0 = [];
          r1 = (if hallucinationRule ui then r0 @ [''hallucination''] else r0);
          r2 = (if promptInjectionRule ui then r1 @ [''promptInjection''] else r1);
          r3 = (if dataLeakageRule ui then r2 @ [''dataLeakage''] else r2);
          r4 = (if length r3 = 0 then r3 @ [''promptInjection''] else r3)
      in spreadNewSet r4)"

text \<open>
  The base risk score the checklist path assigns to one risk, and the \<open>forEach\<close> that
  fills the object \<open>baseRiskScores\<close>. A JavaScript object with string keys keeps its
  keys in insertion order, and assigning an existing key keeps its position: that is
  \<open>AList.update\<close> on an association list.
\<close>

definition isHostedModel :: "userInputs \<Rightarrow> bool" where
  "isHostedModel ui \<longleftrightarrow> aiModel ui = Some ''thirdParty'' \<or> aiModel ui = Some ''apiBased''"

definition baseRiskScore :: "userInputs \<Rightarrow> string \<Rightarrow> int" where
  "baseRiskScore ui risk =
     (if risk = ''dataLeakage'' \<and> isHostedModel ui then 80
      else if risk = ''hallucination'' \<and> accuracyReq ui = Some ''critical'' then 85
      else if risk = ''promptInjection'' \<and> useCase ui = Some ''customerService'' then 75
      else 70)"

definition baseRiskScores :: "userInputs \<Rightarrow> string list \<Rightarrow> (string \<times> int) list" where
  "baseRiskScores ui applicableRisks =
     foldl (\<lambda>acc risk. AList.update risk (baseRiskScore ui risk) acc) [] applicableRisks"


section \<open>JavaScript values and strings\<close>

text \<open>
  A parsed JSON document. \<open>JSON.parse\<close> itself is a library function; it enters the
  model as a parameter \<open>jsonParse\<close> whose result \<open>None\<close> is the thrown SyntaxError.
\<close>

datatype json =
    JNull
  | JBool bool
  | JNum rat
  | JStr string
  | JArr "json list"
  | JObj "(string \<times> json) list"

datatype jsError = TypeError | SyntaxError | NetworkError

text \<open>\<open>!v\<close> is \<open>\<not> truthy v\<close>; a missing property (undefined) is falsy.\<close>

fun truthy :: "json \<Rightarrow> bool" where
  "truthy JNull = False"
| "truthy (JBool b) = b"
| "truthy (JNum r) = (r \<noteq> 0)"
| "truthy (JStr s) = (s \<noteq> [])"
| "truthy (JArr xs) = True"
| "truthy (JObj kvs) = True"

definition truthyProp :: "json option \<Rightarrow> bool" where
  "truthyProp v = (case v of None \<Rightarrow> False | Some j \<Rightarrow> truthy j)"

text \<open>Reading \<open>v.k\<close>: a TypeError on null, undefined on the other primitives.\<close>

fun getProp :: "json \<Rightarrow> string \<Rightarrow> jsError + json option" where
  "getProp JNull k = Inl TypeError"
| "getProp (JObj kvs) k = Inr (map_of kvs k)"
| "getProp (JBool b) k = Inr None"
| "getProp (JNum r) k = Inr None"
| "getProp (JStr s) k = Inr None"
| "getProp (JArr xs) k = Inr None"

text \<open>\<open>v || d\<close> on a string field, \<open>${v}\<close> in a template, \<open>xs.join(sep)\<close>.\<close>

definition orElse :: "string option \<Rightarrow> string \<Rightarrow> string" where
  "orElse v d = (case v of None \<Rightarrow> d | Some s \<Rightarrow> if s = [] then d else s)"

definition templ :: "string option \<Rightarrow> string" where
  "templ v = (case v of None \<Rightarrow> ''undefined'' | Some s \<Rightarrow> s)"

fun joinWith :: "string \<Rightarrow> string list \<Rightarrow> string" where
  "joinWith sep [] = []"
| "joinWith sep [x] = x"
| "joinWith sep (x # y # ys) = x @ sep @ joinWith sep (y # ys)"

definition digitChar :: "nat \<Rightarrow> char" where
  "digitChar d =
     (if d = 0 then CHR ''0'' else if d = 1 then CHR ''1'' else if d = 2 then CHR ''2''
      else if d = 3 then CHR ''3'' else if d = 4 then CHR ''4'' else if d = 5 then CHR ''5''
      else if d = 6 then CHR ''6'' else if d = 7 then CHR ''7'' else if d = 8 then CHR ''8''
      else CHR ''9'')"

fun showNat :: "nat \<Rightarrow> string" where
  "showNat n = (if n < 10 then [digitChar n] else showNat (n div 10) @ [digitChar (n mod 10)])"

declare showNat.simps [simp del]

definition showInt :: "int \<Rightarrow> string" where
  "showInt i = (if i < 0 then CHR ''-'' # showNat (nat (- i)) else showNat (nat i))"

text \<open>
  \<open>text.match(/\{[\s\S]*\}/)\<close>: the leftmost \<open>{\<close> and, the star being greedy, everything
  up to the last \<open>}\<close> after it; no match when no \<open>}\<close> follows the first \<open>{\<close>.
\<close>

definition matchBraces :: "string \<Rightarrow> string option" where
  "matchBraces text =
     (let rest = dropWhile (\<lambda>c. c \<noteq> CHR ''{'') text
      in if rest = [] then None
         else let body = rev (dropWhile (\<lambda>c. c \<noteq> CHR ''}'') (rev (tl rest)))
              in if body = [] then None else Some (CHR ''{'' # body))"

definition extractJsonFromResponse :: "string \<Rightarrow> string" where
  "extractJsonFromResponse text =
     (if text = [] then ''{}''
      else case matchBraces text of Some m \<Rightarrow> m | None \<Rightarrow> ''{}'')"

section \<open>The response of the route\<close>

record riskMitigation =
  riskId :: string
  riskName :: string
  mitigationId :: string
  mitigationName :: string
  priority :: string
  summary :: string

text \<open>
  The factor and example items also carry a \<open>riskId\<close>; their fields are \<open>cf_riskId\<close>
  and \<open>ex_riskId\<close> here.
\<close>

record contributingFactor =
  cf_riskId :: string
  factor :: string
  relevance :: string
  explanation :: string

record relevantExample =
  ex_riskId :: string
  exampleTitle :: string
  relevanceToSystem :: string

record gapSummary =
  implementedControls :: nat
  totalControls :: nat
  gapPercentage :: rat
  riskReduction :: int

text \<open>
  \<open>overallScore\<close> is \<open>None\<close> where the JavaScript number is NaN. \<open>gapSummary\<close> is the
  \<open>gapAnalysis\<close> field of the checklist path's result, absent in the standard path.
\<close>

record assessmentResult =
  overallScore :: "int option"
  riskScores :: "(string \<times> int) list"
  analysis :: string
  riskMitigations :: "riskMitigation list"
  contributingFactors :: "contributingFactor list"
  relevantExamples :: "relevantExample list"
  assessedRisks :: "string list"
  gapSummary :: "gapSummary option"

text \<open>
  In the standard path the assessment is the object the text-generation service
  returned, when it is usable, and an object built by the handler otherwise.
\<close>

datatype assessmentPayload = FromService json | Built assessmentResult

record productInfo =
  pi_productName :: "string option"
  pi_productManagerName :: "string option"
  pi_productManagerEmail :: "string option"

record response =
  success :: bool
  assessment :: assessmentPayload
  productInfo :: productInfo
  tokensUsed :: nat
  resp_assessedRisks :: "string list"
  frameworksLoaded :: "string list"
  assessmentType :: "string option"

definition productInfoOf :: "userInputs \<Rightarrow> productInfo" where
  "productInfoOf ui =
     \<lparr>pi_productName = productName ui,
      pi_productManagerName = productManagerName ui,
      pi_productManagerEmail = productManagerEmail ui\<rparr>"

text \<open>
  The outcome of \<open>openai.chat.completions.create\<close>: it throws, or returns a completion
  with one choice, whose message content may be null, and a token count that may be
  absent.
\<close>

datatype completion = CompletionThrew | Completion "string option" "nat option"

section \<open>The standard path\<close>

definition fallbackComplianceScore :: "userInputs \<Rightarrow> int" where
  "fallbackComplianceScore ui =
     (if dataSensitivity ui = Some ''restricted'' then 45
      else if dataSensitivity ui = Some ''confidential'' then 55
      else if aiModel ui = Some ''thirdParty'' \<or> aiModel ui = Some ''apiBased'' then 60
      else 70)"

definition fallbackRiskScore :: "userInputs \<Rightarrow> string \<Rightarrow> int" where
  "fallbackRiskScore ui risk =
     (if risk = ''dataLeakage'' \<and> isHostedModel ui then 75
      else if risk = ''hallucination'' \<and> accuracyReq ui = Some ''critical'' then 80
      else if risk = ''promptInjection'' \<and> useCase ui = Some ''customerService'' then 70
      else 60)"

text \<open>\<open>Object.fromEntries\<close>: a later entry with the same key overwrites the value.\<close>

definition fromEntries :: "(string \<times> 'v) list \<Rightarrow> (string \<times> 'v) list" where
  "fromEntries es = foldl (\<lambda>acc e. AList.update (fst e) (snd e) acc) [] es"

definition fallbackAnalysis :: "userInputs \<Rightarrow> string list \<Rightarrow> string" where
  "fallbackAnalysis ui applicableRisks =
     ''Assessment completed for your '' @ orElse (industry ui) ''industry'' @
     '' AI system using '' @ orElse (aiModel ui) ''AI model'' @
     '' for '' @ orElse (useCase ui) ''use case'' @
     ''. The system requires attention in the assessed risk areas based on data sensitivity level ('' @
     orElse (dataSensitivity ui) ''not specified'' @
     '') and accuracy requirements ('' @ orElse (accuracyReq ui) ''not specified'' @
     ''). Review the FINOS framework recommendations for '' @
     joinWith '', '' applicableRisks @ '' risks.''"

definition fallbackAssessment :: "userInputs \<Rightarrow> string list \<Rightarrow> assessmentResult" where
  "fallbackAssessment ui applicableRisks =
     \<lparr>overallScore = Some (fallbackComplianceScore ui),
      riskScores = fromEntries (map (\<lambda>risk. (risk, fallbackRiskScore ui risk)) applicableRisks),
      analysis = fallbackAnalysis ui applicableRisks,
      riskMitigations =
        [\<lparr>riskId = ''AIR-PREV-005'', riskName = ''System Acceptance Testing'',
          mitigationId = ''AIR-PREV-005'', mitigationName = ''System Acceptance Testing'',
          priority = ''High'',
          summary = ''Essential for validating system behavior before deployment''\<rparr>],
      contributingFactors = [],
      relevantExamples = [],
      assessedRisks = applicableRisks,
      gapSummary = None\<rparr>"

text \<open>
  The \<open>try\<close> block: extract, parse, and throw when a required field is falsy. Every throw
  inside it (the SyntaxError of the parser, the TypeError of reading a property of null,
  the explicit Error) lands in the same \<open>catch\<close>, so the block yields \<open>None\<close> for all of
  them.
\<close>

definition parseAssessment :: "(string \<Rightarrow> json option) \<Rightarrow> string option \<Rightarrow> json option" where
  "parseAssessment jsonParse responseText =
     (let cleanedResponse = extractJsonFromResponse (orElse responseText ''{}'')
      in case jsonParse cleanedResponse of
           None \<Rightarrow> None
         | Some assessmentResult \<Rightarrow>
             (case getProp assessmentResult ''overallScore'' of
                Inl e \<Rightarrow> None
              | Inr os \<Rightarrow>
                  if \<not> truthyProp os then None
                  else (case getProp assessmentResult ''riskScores'' of
                          Inl e \<Rightarrow> None
                        | Inr rs \<Rightarrow> if \<not> truthyProp rs then None else Some assessmentResult)))"

text \<open>A required field is there when reading it does not throw and its value is truthy.\<close>

definition hasField :: "json \<Rightarrow> string \<Rightarrow> bool" where
  "hasField j k = (case getProp j k of Inl e \<Rightarrow> False | Inr v \<Rightarrow> truthyProp v)"

definition handleStandardAssessment ::
  "(string \<Rightarrow> json option) \<Rightarrow> userInputs \<Rightarrow> string list \<Rightarrow> string list \<Rightarrow> completion
     \<Rightarrow> jsError + response" where
  "handleStandardAssessment jsonParse ui applicableRisks frameworkKeys c =
     (case c of
        CompletionThrew \<Rightarrow> Inl NetworkError
      | Completion responseText usage \<Rightarrow>
          Inr \<lparr>success = True,
               assessment =
                 (case parseAssessment jsonParse responseText of
                    Some a \<Rightarrow> FromService a
                  | None \<Rightarrow> Built (fallbackAssessment ui applicableRisks)),
               productInfo = productInfoOf ui,
               tokensUsed = (case usage of None \<Rightarrow> 0 | Some n \<Rightarrow> n),
               resp_assessedRisks = applicableRisks,
               frameworksLoaded = frameworkKeys,
               assessmentType = None\<rparr>)"

section \<open>The checklist: catalog, answers and the form's submission\<close>

text \<open>
  \<open>checklistData.ts\<close> declares the question type, the answer type and the catalog
  \<open>checklistQuestions\<close>; the catalog is a parameter \<open>catalog\<close> of everything below.
  The field \<open>id\<close> of a question is \<open>id_q\<close> here. The form indexes the submission by
  \<open>question.category\<close>, one of the three keys of \<open>ChecklistData\<close>.
\<close>

datatype RiskCategory = Hallucination | PromptInjection | DataLeakage


datatype ChecklistAnswer = Yes | No | NA

definition answerString :: "ChecklistAnswer \<Rightarrow> string" where
  "answerString a = (case a of Yes \<Rightarrow> ''yes'' | No \<Rightarrow> ''no'' | NA \<Rightarrow> ''na'')"

record ChecklistQuestion =
  id_q :: int
  category :: RiskCategory
  question :: string
  purpose :: string
  weight :: int

text \<open>\<open>answer\<close> is \<open>None\<close> where the JavaScript value is undefined.\<close>

record ChecklistResponse =
  questionId :: int
  answer :: "ChecklistAnswer option"

record ChecklistData =
  hallucination :: "ChecklistResponse list"
  promptInjection :: "ChecklistResponse list"
  dataLeakage :: "ChecklistResponse list"

record requestBody =
  userInputs :: userInputs
  hasRiskAssessment :: bool
  checklistData :: "ChecklistData option"

text \<open>What \<open>response.json()\<close> of the form's request yields, or the request throws.\<close>

record fetchResult =
  fr_success :: bool
  fr_assessment :: json
  fr_error :: "string option"

datatype fetchOutcome = FetchThrew | Fetched fetchResult

text \<open>
  The state the component reads and writes: its own \<open>responses\<close>, the parent's
  \<open>isLoading\<close>, and the effects in the order they happen (alerts shown, requests
  sent to \<open>/api/assess\<close>, results handed to \<open>onComplete\<close>).
\<close>

record formState =
  responses :: "int \<rightharpoonup> ChecklistAnswer"
  isLoading :: bool
  alerts :: "string list"
  requests :: "requestBody list"
  completed :: "json list"

definition handleResponseChange :: "int \<Rightarrow> ChecklistAnswer \<Rightarrow> formState \<Rightarrow> formState" where
  "handleResponseChange qid a st = st\<lparr>responses := (responses st)(qid \<mapsto> a)\<rparr>"

definition isFormComplete :: "ChecklistQuestion list \<Rightarrow> formState \<Rightarrow> bool" where
  "isFormComplete catalog st = list_all (\<lambda>q. responses st (id_q q) \<noteq> None) catalog"

definition pushResponse :: "formState \<Rightarrow> ChecklistData \<Rightarrow> ChecklistQuestion \<Rightarrow> ChecklistData" where
  "pushResponse st cd q =
     (let r = \<lparr>questionId = id_q q, answer = responses st (id_q q)\<rparr>
      in case category q of
           Hallucination \<Rightarrow> cd\<lparr>hallucination := hallucination cd @ [r]\<rparr>
         | PromptInjection \<Rightarrow> cd\<lparr>promptInjection := promptInjection cd @ [r]\<rparr>
         | DataLeakage \<Rightarrow> cd\<lparr>dataLeakage := dataLeakage cd @ [r]\<rparr>)"

definition organizeResponses :: "ChecklistQuestion list \<Rightarrow> formState \<Rightarrow> ChecklistData" where
  "organizeResponses catalog st =
     foldl (pushResponse st) \<lparr>hallucination = [], promptInjection = [], dataLeakage = []\<rparr> catalog"

text \<open>The record the loop pushes for a question.\<close>

definition responseOf :: "formState \<Rightarrow> ChecklistQuestion \<Rightarrow> ChecklistResponse" where
  "responseOf st q = \<lparr>questionId = id_q q, answer = responses st (id_q q)\<rparr>"

definition submitChecklist ::
  "ChecklistQuestion list \<Rightarrow> userInputs \<Rightarrow> fetchOutcome \<Rightarrow> formState \<Rightarrow> formState" where
  "submitChecklist catalog formData outcome st =
     (if \<not> isFormComplete catalog st
      then st\<lparr>alerts := alerts st @ [''Please answer all questions before submitting'']\<rparr>
      else
        let cd = organizeResponses catalog st;
            st1 = st\<lparr>isLoading := True\<rparr>;
            st2 = st1\<lparr>requests := requests st1 @
                    [\<lparr>userInputs = formData, hasRiskAssessment = True, checklistData = Some cd\<rparr>]\<rparr>;
            st3 = (case outcome of
                     FetchThrew \<Rightarrow> st2\<lparr>alerts := alerts st2 @ [''Error performing assessment'']\<rparr>
                   | Fetched result \<Rightarrow>
                       if fr_success result
                       then st2\<lparr>completed := completed st2 @ [fr_assessment result]\<rparr>
                       else st2\<lparr>alerts := alerts st2 @
                              [''Assessment failed: '' @ templ (fr_error result)]\<rparr>)
        in st3\<lparr>isLoading := False\<rparr>)"

text \<open>\<open>JSON.stringify\<close> of the submission: an undefined field is left out.\<close>

definition responseJson :: "ChecklistResponse \<Rightarrow> json" where
  "responseJson r =
     JObj ((''questionId'', JNum (of_int (questionId r))) #
           (case answer r of None \<Rightarrow> [] | Some a \<Rightarrow> [(''answer'', JStr (answerString a))]))"

definition checklistDataJson :: "ChecklistData \<Rightarrow> json" where
  "checklistDataJson cd =
     JObj [(''hallucination'', JArr (map responseJson (hallucination cd))),
           (''promptInjection'', JArr (map responseJson (promptInjection cd))),
           (''dataLeakage'', JArr (map responseJson (dataLeakage cd)))]"

text \<open>
  The shape \<open>{questionId: integer, answer: "yes"|"no"|"na"}\<close>, and an ordered list of
  such records.
\<close>

definition isResponseRecord :: "json \<Rightarrow> bool" where
  "isResponseRecord j =
     (case j of
        JObj [(k1, JNum n), (k2, JStr a)] \<Rightarrow>
          k1 = ''questionId'' \<and> of_int \<lfloor>n\<rfloor> = n \<and> k2 = ''answer'' \<and>
          (a = ''yes'' \<or> a = ''no'' \<or> a = ''na'')
      | _ \<Rightarrow> False)"

definition isResponseList :: "json \<Rightarrow> bool" where
  "isResponseList j = (case j of JArr xs \<Rightarrow> list_all isResponseRecord xs | _ \<Rightarrow> False)"

definition allResponses :: "ChecklistData \<Rightarrow> ChecklistResponse list" where
  "allResponses cd = hallucination cd @ promptInjection cd @ dataLeakage cd"

definition responsesFor :: "RiskCategory \<Rightarrow> ChecklistData \<Rightarrow> ChecklistResponse list" where
  "responsesFor c cd =
     (case c of Hallucination \<Rightarrow> hallucination cd
      | PromptInjection \<Rightarrow> promptInjection cd
      | DataLeakage \<Rightarrow> dataLeakage cd)"

section \<open>The checklist path\<close>

text \<open>
  \<open>utils/gapAnalysis.ts\<close> supplies \<open>calculateRiskScoresWithGaps\<close>; the handler is
  modelled for any such function \<open>calc\<close>. Its result has the adjusted scores (an object
  keyed by risk, in key order) and the gap analysis, of which the handler reads
  \<open>totalRiskReduction\<close>, \<open>gapPercentage\<close> and the entries of \<open>implementationStatus\<close>
  (question id and status, in \<open>Object.entries\<close> order).
\<close>

record ImplementationStatus =
  implemented :: bool
  statusCategory :: RiskCategory
  statusWeight :: int

record GapAnalysis =
  totalRiskReduction :: int
  implementationStatus :: "(int \<times> ImplementationStatus) list"
  ga_gapPercentage :: rat

record gapResult =
  adjustedRiskScores :: "(string \<times> int) list"
  gapAnalysis :: GapAnalysis

type_synonym gapCalculator = "(string \<times> int) list \<Rightarrow> ChecklistData \<Rightarrow> gapResult"

text \<open>The FINOS framework files, as far as the handler reads them.\<close>

record mitigationData =
  m_id :: string
  m_name :: string
  m_description :: string

record factorData =
  f_factor :: string
  f_description :: string

record exampleData =
  e_title :: string
  e_description :: string

record framework =
  fw_id :: string
  fw_title :: string
  key_mitigations :: "mitigationData list option"
  contributing_factors :: "factorData list option"
  examples :: "exampleData list option"

text \<open>
  \<open>Math.round\<close> rounds to the nearest integer, a half upwards. The average is a
  quotient of JavaScript numbers: \<open>0 / 0\<close> is NaN, which \<open>Math.min\<close>, \<open>Math.max\<close> and
  \<open>Math.round\<close> hand on (\<open>None\<close>). Integer scores keep the arithmetic exact up to the
  division, so it is modelled on rationals.
\<close>

definition mathRound :: "rat \<Rightarrow> int" where
  "mathRound x = \<lfloor>x + 1 / 2\<rfloor>"

definition avgRiskScore :: "int list \<Rightarrow> rat option" where
  "avgRiskScore vs =
     (if length vs = 0 then None
      else Some (of_int (foldl (\<lambda>a b. a + b) 0 vs) / of_int (int (length vs))))"

definition overallScoreOf :: "int list \<Rightarrow> int \<Rightarrow> rat option" where
  "overallScoreOf vs reduction =
     (case avgRiskScore vs of
        None \<Rightarrow> None
      | Some avg \<Rightarrow> Some (max 10 (min 100 (100 - avg + of_int reduction / 2))))"

text \<open>The spec's wording of the same score: \<open>clamp(x, lo, hi)\<close> and \<open>average\<close>.\<close>

definition clamp :: "rat \<Rightarrow> rat \<Rightarrow> rat \<Rightarrow> rat" where
  "clamp x lo hi = (if x < lo then lo else if hi < x then hi else x)"

definition average :: "int list \<Rightarrow> rat" where
  "average vs = of_int (sum_list vs) / of_int (int (length vs))"

text \<open>The summary of implemented and missing controls.\<close>

definition controlLabel :: "ChecklistQuestion \<Rightarrow> string" where
  "controlLabel q = question q @ '' ('' @ purpose q @ '')''"

definition controlStep ::
  "ChecklistQuestion list \<Rightarrow> string list \<times> string list \<Rightarrow> int \<times> ImplementationStatus
     \<Rightarrow> string list \<times> string list" where
  "controlStep catalog acc entry =
     (case find (\<lambda>q. id_q q = fst entry) catalog of
        None \<Rightarrow> acc
      | Some q \<Rightarrow>
          if implemented (snd entry) then (fst acc @ [controlLabel q], snd acc)
          else (fst acc, snd acc @ [controlLabel q]))"

definition checklistFallbackAnalysis ::
  "userInputs \<Rightarrow> nat \<Rightarrow> nat \<Rightarrow> int \<Rightarrow> (string \<times> int) list \<Rightarrow> string" where
  "checklistFallbackAnalysis ui nImplemented nMissing reduction adjusted =
     ''Based on your inputs and current implementations, it is analyzed that you have implemented '' @
     showNat nImplemented @ '' out of '' @ showNat (nImplemented + nMissing) @
     '' critical controls for your '' @ orElse (industry ui) ''industry'' @
     '' AI system. Your implemented controls have achieved '' @ showInt reduction @
     '' points of risk reduction. However, you still have '' @
     showNat (length (filter (\<lambda>e. snd e \<ge> 60) adjusted)) @
     '' risk areas that can affect your system and require attention. The related mitigations for possible risks are provided below.''"

text \<open>The loop over the adjusted scores that gathers the framework items.\<close>

definition priorityFor :: "int \<Rightarrow> string" where
  "priorityFor score = (if score \<ge> 70 then ''High'' else if score \<ge> 60 then ''Medium'' else ''Low'')"

definition frameworkKeyOf :: "string \<Rightarrow> string option" where
  "frameworkKeyOf riskKey =
     (if riskKey = ''hallucination'' then Some ''hallucination''
      else if riskKey = ''promptInjection'' then Some ''promptInjection''
      else if riskKey = ''dataLeakage'' then Some ''dataLeakage''
      else None)"

definition mitigationsOf :: "framework \<Rightarrow> int \<Rightarrow> riskMitigation list" where
  "mitigationsOf fw score =
     (case key_mitigations fw of
        None \<Rightarrow> []
      | Some ms \<Rightarrow>
          map (\<lambda>m. \<lparr>riskId = fw_id fw, riskName = fw_title fw, mitigationId = m_id m,
                     mitigationName = m_name m, priority = priorityFor score,
                     summary = m_description m\<rparr>) ms)"

definition factorsOf :: "framework \<Rightarrow> int \<Rightarrow> contributingFactor list" where
  "factorsOf fw score =
     (case contributing_factors fw of
        None \<Rightarrow> []
      | Some fs \<Rightarrow>
          map (\<lambda>f. \<lparr>cf_riskId = fw_id fw, factor = f_factor f, relevance = priorityFor score,
                     explanation = f_description f\<rparr>) (take 2 fs))"

definition examplesOf :: "userInputs \<Rightarrow> framework \<Rightarrow> relevantExample list" where
  "examplesOf ui fw =
     (case examples fw of
        None \<Rightarrow> []
      | Some es \<Rightarrow>
          map (\<lambda>e. \<lparr>ex_riskId = fw_id fw, exampleTitle = e_title e,
                     relevanceToSystem =
                       ''This example applies to your '' @ templ (useCase ui) @ '' system: '' @
                       take 150 (e_description e) @ ''...''\<rparr>) (take 1 es))"

record collected =
  finosRiskMitigations :: "riskMitigation list"
  factorsAcc :: "contributingFactor list"
  examplesAcc :: "relevantExample list"

definition collectStep ::
  "(string \<times> framework) list \<Rightarrow> userInputs \<Rightarrow> collected \<Rightarrow> string \<times> int \<Rightarrow> collected" where
  "collectStep frameworks ui acc entry =
     (let riskKey = fst entry; score = snd entry
      in if score \<ge> 50
         then (case frameworkKeyOf riskKey of
                 None \<Rightarrow> acc
               | Some frameworkKey \<Rightarrow>
                   (case map_of frameworks frameworkKey of
                      None \<Rightarrow> acc
                    | Some fw \<Rightarrow>
                        \<lparr>finosRiskMitigations = finosRiskMitigations acc @ mitigationsOf fw score,
                         factorsAcc = factorsAcc acc @ factorsOf fw score,
                         examplesAcc = examplesAcc acc @ examplesOf ui fw\<rparr>))
         else acc)"

definition collectFramework ::
  "(string \<times> framework) list \<Rightarrow> userInputs \<Rightarrow> (string \<times> int) list \<Rightarrow> collected" where
  "collectFramework frameworks ui adjusted =
     foldl (collectStep frameworks ui)
       \<lparr>finosRiskMitigations = [], factorsAcc = [], examplesAcc = []\<rparr> adjusted"

text \<open>The framework an entry of the adjusted scores contributes items from, if any.\<close>

definition entryFramework :: "(string \<times> framework) list \<Rightarrow> string \<times> int \<Rightarrow> framework option" where
  "entryFramework frameworks entry =
     (if snd entry \<ge> 50
      then (case frameworkKeyOf (fst entry) of
              None \<Rightarrow> None
            | Some frameworkKey \<Rightarrow> map_of frameworks frameworkKey)
      else None)"

text \<open>
  The handler. The recommendations of \<open>generateGapRecommendations\<close> are computed by the
  source and not used in the response, so they do not appear here.
\<close>

definition checklistAssessment ::
  "gapCalculator \<Rightarrow> ChecklistQuestion list \<Rightarrow> userInputs \<Rightarrow> string list
     \<Rightarrow> (string \<times> framework) list \<Rightarrow> ChecklistData \<Rightarrow> completion \<Rightarrow> assessmentResult" where
  "checklistAssessment calc catalog ui applicableRisks frameworks cd c =
     (let baseScores = baseRiskScores ui applicableRisks;
          g = calc baseScores cd;
          adjusted = adjustedRiskScores g;
          gap = gapAnalysis g;
          overall = overallScoreOf (map snd adjusted) (totalRiskReduction gap);
          controls = foldl (controlStep catalog) ([], []) (implementationStatus gap);
          aiGeneratedAnalysis =
            (case c of
               CompletionThrew \<Rightarrow>
                 checklistFallbackAnalysis ui (length (fst controls)) (length (snd controls))
                   (totalRiskReduction gap) adjusted
             | Completion content usage \<Rightarrow> orElse content []);
          col = collectFramework frameworks ui adjusted;
          implementedCount = length (filter (\<lambda>e. implemented (snd e)) (implementationStatus gap));
          totalCount = length (implementationStatus gap)
      in \<lparr>overallScore = map_option mathRound overall,
          riskScores = adjusted,
          analysis = aiGeneratedAnalysis,
          riskMitigations = finosRiskMitigations col,
          contributingFactors = factorsAcc col,
          relevantExamples = examplesAcc col,
          assessedRisks = applicableRisks,
          gapSummary = Some \<lparr>implementedControls = implementedCount, totalControls = totalCount,
                              gapPercentage = ga_gapPercentage gap,
                              riskReduction = totalRiskReduction gap\<rparr>\<rparr>)"

definition handleChecklistAssessment ::
  "gapCalculator \<Rightarrow> ChecklistQuestion list \<Rightarrow> userInputs \<Rightarrow> string list
     \<Rightarrow> (string \<times> framework) list \<Rightarrow> ChecklistData \<Rightarrow> completion \<Rightarrow> response" where
  "handleChecklistAssessment calc catalog ui applicableRisks frameworks cd c =
     \<lparr>success = True,
      assessment = Built (checklistAssessment calc catalog ui applicableRisks frameworks cd c),
      productInfo = productInfoOf ui,
      tokensUsed = 0,
      resp_assessedRisks = applicableRisks,
      frameworksLoaded = map fst frameworks,
      assessmentType = Some ''gap_analysis''\<rparr>"

section \<open>The route\<close>

text \<open>The three framework files of the data directory, read and parsed.\<close>

record dataDir =
  Hallucination_and_Inaccurate_Outputs :: framework
  Prompt_Injection :: framework
  Information_Leaked_To_Hosted_Model :: framework

definition loadRelevantFrameworkData :: "dataDir \<Rightarrow> string list \<Rightarrow> (string \<times> framework) list" where
  "loadRelevantFrameworkData d applicableRisks =
     (if ''hallucination'' \<in> set applicableRisks
      then [(''hallucination'', Hallucination_and_Inaccurate_Outputs d)] else []) @
     (if ''promptInjection'' \<in> set applicableRisks
      then [(''promptInjection'', Prompt_Injection d)] else []) @
     (if ''dataLeakage'' \<in> set applicableRisks
      then [(''dataLeakage'', Information_Leaked_To_Hosted_Model d)] else [])"

datatype httpResponse = Ok200 response | Error500 string

definition POST ::
  "bool \<Rightarrow> (string \<Rightarrow> json option) \<Rightarrow> gapCalculator \<Rightarrow> ChecklistQuestion list \<Rightarrow> dataDir
     \<Rightarrow> requestBody \<Rightarrow> completion \<Rightarrow> httpResponse" where
  "POST apiKeySet jsonParse calc catalog d body c =
     (if \<not> apiKeySet then Error500 ''OpenAI API key not configured''
      else
        let applicableRisks = determineApplicableRisks (userInputs body);
            frameworks = loadRelevantFrameworkData d applicableRisks
        in case (hasRiskAssessment body, checklistData body) of
             (True, Some cd) \<Rightarrow>
               Ok200 (handleChecklistAssessment calc catalog (userInputs body) applicableRisks
                        frameworks cd c)
           | _ \<Rightarrow>
               (case handleStandardAssessment jsonParse (userInputs body) applicableRisks
                       (map fst frameworks) c of
                  Inl e \<Rightarrow> Error500 ''Failed to perform assessment''
                | Inr r \<Rightarrow> Ok200 r))"

section \<open>Gap analysis, from the specification\<close>

text \<open>
  Modelled from the spec: \<open>utils/gapAnalysis.ts\<close> (\<open>calculateRiskScoresWithGaps\<close> and
  \<open>generateGapRecommendations\<close>) is not among the sources. The definitions of this
  section follow section 4.1 of the specification: base scores a mapping from risk
  category to integer, answers a mapping from question id to answer, the catalog an
  ordered list, \<open>floorScore\<close> the configured floor.
\<close>

definition allCategories :: "RiskCategory list" where
  "allCategories = [Hallucination, PromptInjection, DataLeakage]"

definition rawReduction ::
  "ChecklistQuestion list \<Rightarrow> (int \<rightharpoonup> ChecklistAnswer) \<Rightarrow> RiskCategory \<Rightarrow> int" where
  \<comment> \<open>Modelled from the spec: steps 1 and 2, the weights of the category's questions answered yes.\<close>
  "rawReduction catalog answers c =
     sum_list (map weight (filter (\<lambda>q. category q = c \<and> answers (id_q q) = Some Yes) catalog))"


definition appliedReduction :: "int \<Rightarrow> int \<Rightarrow> int \<Rightarrow> int" where
  \<comment> \<open>Modelled from the spec: step 4, the raw reduction, or \<open>baseScore - floorScore\<close> when the raw
      reduction exceeds it.\<close>
  "appliedReduction floorScore baseScore raw = (if raw > baseScore - floorScore then baseScore - floorScore else raw)"

definition statusOf :: "(int \<rightharpoonup> ChecklistAnswer) \<Rightarrow> ChecklistQuestion \<Rightarrow> ImplementationStatus" where
  \<comment> \<open>Modelled from the spec: step 6.\<close>
  "statusOf answers q =
     \<lparr>implemented = (answers (id_q q) = Some Yes), statusCategory = category q,
      statusWeight = weight q\<rparr>"

record specGapAnalysis =
  sg_totalRiskReduction :: int
  sg_implementationStatus :: "(ChecklistQuestion \<times> ImplementationStatus) list"
  sg_gapPercentage :: rat


definition computeGapAnalysis ::
  "int \<Rightarrow> ChecklistQuestion list \<Rightarrow> (RiskCategory \<rightharpoonup> int) \<Rightarrow> (int \<rightharpoonup> ChecklistAnswer)
     \<Rightarrow> specGapAnalysis" where
  \<comment> \<open>Modelled from the spec: the gap analysis of \<open>computeAdjustedScores\<close>, steps 4 to 6.\<close>
  "computeGapAnalysis floorScore catalog baseScores answers =
     \<lparr>sg_totalRiskReduction =
        sum_list (map (\<lambda>c. case baseScores c of
                              None \<Rightarrow> 0
                            | Some b \<Rightarrow> appliedReduction floorScore b (rawReduction catalog answers c))
                      allCategories),
      sg_implementationStatus = map (\<lambda>q. (q, statusOf answers q)) catalog,
      sg_gapPercentage =
        of_nat (length (filter (\<lambda>q. answers (id_q q) \<noteq> Some Yes) catalog)) * 100 /
        of_nat (length catalog)\<rparr>"

record recommendation =
  questionPurpose :: string
  rec_category :: RiskCategory
  rec_weight :: int

definition missingControls :: "specGapAnalysis \<Rightarrow> ChecklistQuestion list" where
  \<comment> \<open>Modelled from the spec: the not-implemented questions, by descending weight, a stable
      sort with ties broken by ascending question id.\<close>
  "missingControls gap =
     sort_key (\<lambda>q. (- weight q, id_q q))
       (map fst (filter (\<lambda>e. \<not> implemented (snd e)) (sg_implementationStatus gap)))"

definition generateGapRecommendations :: "specGapAnalysis \<Rightarrow> recommendation list" where
  \<comment> \<open>Modelled from the spec: one record per not-implemented question, with its purpose text,
      category and weight.\<close>
  "generateGapRecommendations gap =
     map (\<lambda>q. \<lparr>questionPurpose = purpose q, rec_category = category q, rec_weight = weight q\<rparr>)
       (missingControls gap)"


definition precedes :: "ChecklistQuestion \<Rightarrow> ChecklistQuestion \<Rightarrow> bool" where
  \<comment> \<open>Modelled from the spec: the order of the recommendations, descending weight and then
      ascending question id.\<close>
  "precedes a b \<longleftrightarrow> weight a > weight b \<or> (weight a = weight b \<and> id_q a \<le> id_q b)"

section \<open>Concrete inputs\<close>

definition emptyInputs :: userInputs where
  "emptyInputs =
     \<lparr>aiModel = None, useCase = None, dataSensitivity = None, industry = None,
      accuracyReq = None, productName = None, productManagerName = None,
      productManagerEmail = None\<rparr>"

definition hostedInputs :: userInputs where
  "hostedInputs = emptyInputs\<lparr>aiModel := Some ''thirdParty'', accuracyReq := Some ''critical''\<rparr>"

definition sampleCalc :: gapCalculator where
  "sampleCalc baseScores cd =
     \<lparr>adjustedRiskScores =
        map (\<lambda>e. (fst e, snd e - (if fst e = ''promptInjection'' then 25
                                   else if fst e = ''hallucination'' then 10 else 15))) baseScores,
      gapAnalysis = \<lparr>totalRiskReduction = 50, implementationStatus = [], ga_gapPercentage = 100\<rparr>\<rparr>"

definition noAnswers :: ChecklistData where
  "noAnswers = \<lparr>hallucination = [], promptInjection = [], dataLeakage = []\<rparr>"

definition sampleFramework :: "string \<Rightarrow> framework" where
  "sampleFramework rid =
     \<lparr>fw_id = rid, fw_title = ''Risk'',
      key_mitigations = Some [\<lparr>m_id = ''AIR-PREV-005'', m_name = ''System Acceptance Testing'',
                                 m_description = ''Test the system''\<rparr>],
      contributing_factors = Some [\<lparr>f_factor = ''Factor'', f_description = ''Why''\<rparr>],
      examples = Some [\<lparr>e_title = ''Example'', e_description = ''What happened''\<rparr>]\<rparr>"

definition sampleDataDir :: dataDir where
  "sampleDataDir =
     \<lparr>Hallucination_and_Inaccurate_Outputs = sampleFramework ''AIR-OP-004'',
      Prompt_Injection = sampleFramework ''AIR-SEC-010'',
      Information_Leaked_To_Hosted_Model = sampleFramework ''AIR-RC-001''\<rparr>"

definition rejectingParser :: "string \<Rightarrow> json option" where
  "rejectingParser s = None"

definition analysisOnlyParser :: "string \<Rightarrow> json option" where
  "analysisOnlyParser s = Some (JObj [(''analysis'', JStr ''Looks fine'')])"

definition sampleCatalog :: "ChecklistQuestion list" where
  "sampleCatalog =
     [\<lparr>id_q = 1, category = PromptInjection, question = ''Do you filter prompts?'',
       purpose = ''Input filtering'', weight = 30\<rparr>,
      \<lparr>id_q = 2, category = Hallucination, question = ''Do you review outputs?'',
       purpose = ''Output review'', weight = 20\<rparr>]"

definition answeredState :: formState where
  "answeredState =
     \<lparr>responses = [1 \<mapsto> Yes, 2 \<mapsto> No], isLoading = False, alerts = [], requests = [],
      completed = []\<rparr>"

definition halfAnsweredState :: formState where
  "halfAnsweredState =
     \<lparr>responses = [1 \<mapsto> Yes], isLoading = False, alerts = [], requests = [], completed = []\<rparr>"

definition hallucinationBase :: "RiskCategory \<rightharpoonup> int" where
  "hallucinationBase = [Hallucination \<mapsto> 85]"


definition tieCatalog :: "ChecklistQuestion list" where
  "tieCatalog =
     [\<lparr>id_q = 7, category = DataLeakage, question = ''Do you mask data?'',
       purpose = ''Data masking'', weight = 30\<rparr>,
      \<lparr>id_q = 5, category = Hallucination, question = ''Do you test outputs?'',
       purpose = ''Acceptance testing'', weight = 40\<rparr>,
      \<lparr>id_q = 3, category = PromptInjection, question = ''Do you filter prompts?'',
       purpose = ''Input filtering'', weight = 30\<rparr>]"

section \<open>Properties\<close>

lemma set_foldl_setAdd: "set (foldl setAdd acc xs) = set acc \<union> set xs"
  by (induction xs arbitrary: acc) (auto simp: setAdd_def)

lemma distinct_foldl_setAdd: "distinct acc \<Longrightarrow> distinct (foldl setAdd acc xs)"
  by (induction xs arbitrary: acc) (auto simp: setAdd_def)

lemma set_spreadNewSet: "set (spreadNewSet xs) = set xs"
  by (simp add: spreadNewSet_def set_foldl_setAdd)

lemma distinct_spreadNewSet: "distinct (spreadNewSet xs)"
  by (simp add: spreadNewSet_def distinct_foldl_setAdd)

lemma spreadNewSet_single: "spreadNewSet [x] = [x]"
  by (simp add: spreadNewSet_def setAdd_def)


subsection \<open>Applicable risks\<close>

text \<open>
  C8. For every \<open>userInputs\<close> object, also one whose fields are all missing or
  unrecognised, \<open>determineApplicableRisks\<close> returns a list that is not empty, has no
  duplicates and holds only \<open>hallucination\<close>, \<open>promptInjection\<close> and \<open>dataLeakage\<close>; when
  none of the three rules matches, the list is exactly \<open>[promptInjection]\<close>.
\<close>

theorem determineApplicableRisks_shape:
  "determineApplicableRisks ui \<noteq> [] \<and>
   distinct (determineApplicableRisks ui) \<and>
   set (determineApplicableRisks ui) \<subseteq> {''hallucination'', ''promptInjection'', ''dataLeakage''} \<and>
   (\<not> hallucinationRule ui \<and> \<not> promptInjectionRule ui \<and> \<not> dataLeakageRule ui \<longrightarrow>
      determineApplicableRisks ui = [''promptInjection''])"
proof -
  have ne: "determineApplicableRisks ui \<noteq> []"
  proof
    assume "determineApplicableRisks ui = []"
    then have "set (determineApplicableRisks ui) = {}" by simp
    then show False
      by (simp add: determineApplicableRisks_def Let_def set_spreadNewSet split: if_splits)
  qed
  have di: "distinct (determineApplicableRisks ui)"
    by (simp add: determineApplicableRisks_def Let_def distinct_spreadNewSet)
  have su: "set (determineApplicableRisks ui) \<subseteq> {''hallucination'', ''promptInjection'', ''dataLeakage''}"
    by (simp add: determineApplicableRisks_def Let_def set_spreadNewSet)
  have dflt: "\<not> hallucinationRule ui \<and> \<not> promptInjectionRule ui \<and> \<not> dataLeakageRule ui \<longrightarrow>
      determineApplicableRisks ui = [''promptInjection'']"
    by (simp add: determineApplicableRisks_def Let_def spreadNewSet_single)
  from ne di su dflt show ?thesis by blast
qed

theorem determineApplicableRisks_shape_witness:
  "\<not> hallucinationRule emptyInputs \<and> \<not> promptInjectionRule emptyInputs \<and>
   \<not> dataLeakageRule emptyInputs \<and>
   determineApplicableRisks emptyInputs = [''promptInjection'']"
  using determineApplicableRisks_shape [of emptyInputs]
  by (simp add: hallucinationRule_def promptInjectionRule_def dataLeakageRule_def emptyInputs_def)

subsection \<open>Base risk scores of the checklist path\<close>

lemma map_of_foldl_update:
  "map_of (foldl (\<lambda>acc risk. AList.update risk (f risk) acc) acc0 rs) r =
     (if r \<in> set rs then Some (f r) else map_of acc0 r)"
  by (induction rs arbitrary: acc0) (auto simp: update_conv')

lemma keys_foldl_update:
  "fst ` set (foldl (\<lambda>acc risk. AList.update risk (f risk) acc) acc0 rs) = fst ` set acc0 \<union> set rs"
  by (induction rs arbitrary: acc0) (auto simp: dom_update)

text \<open>
  C4. In the checklist path the base-score object has an entry for exactly the
  risks under assessment, and the score of each is an integer in [0,100]: 80 for
  \<open>dataLeakage\<close> on a third-party or API-based model, 85 for \<open>hallucination\<close> with critical
  accuracy requirements, 75 for \<open>promptInjection\<close> with the customer-service use case,
  and 70 otherwise.
\<close>

theorem baseRiskScores_total:
  "fst ` set (baseRiskScores ui applicableRisks) = set applicableRisks \<and>
   (\<forall>risk \<in> set applicableRisks.
      map_of (baseRiskScores ui applicableRisks) risk = Some (baseRiskScore ui risk) \<and>
      0 \<le> baseRiskScore ui risk \<and> baseRiskScore ui risk \<le> 100 \<and>
      baseRiskScore ui risk =
        (if risk = ''dataLeakage'' \<and>
            (aiModel ui = Some ''thirdParty'' \<or> aiModel ui = Some ''apiBased'') then 80
         else if risk = ''hallucination'' \<and> accuracyReq ui = Some ''critical'' then 85
         else if risk = ''promptInjection'' \<and> useCase ui = Some ''customerService'' then 75
         else 70))"
proof -
  have k: "fst ` set (baseRiskScores ui applicableRisks) = set applicableRisks"
    by (simp add: baseRiskScores_def keys_foldl_update)
  have v: "\<And>risk. risk \<in> set applicableRisks \<Longrightarrow>
      map_of (baseRiskScores ui applicableRisks) risk = Some (baseRiskScore ui risk)"
    by (simp add: baseRiskScores_def map_of_foldl_update)
  have r: "\<And>risk. 0 \<le> baseRiskScore ui risk \<and> baseRiskScore ui risk \<le> 100"
    by (simp add: baseRiskScore_def)
  have c: "\<And>risk. baseRiskScore ui risk =
        (if risk = ''dataLeakage'' \<and>
            (aiModel ui = Some ''thirdParty'' \<or> aiModel ui = Some ''apiBased'') then 80
         else if risk = ''hallucination'' \<and> accuracyReq ui = Some ''critical'' then 85
         else if risk = ''promptInjection'' \<and> useCase ui = Some ''customerService'' then 75
         else 70)"
    by (simp add: baseRiskScore_def isHostedModel_def)
  from k v r c show ?thesis by blast
qed

theorem baseRiskScores_total_witness:
  "''dataLeakage'' \<in> set (determineApplicableRisks hostedInputs) \<and>
   map_of (baseRiskScores hostedInputs (determineApplicableRisks hostedInputs)) ''dataLeakage'' = Some 80 \<and>
   map_of (baseRiskScores hostedInputs (determineApplicableRisks hostedInputs)) ''hallucination'' = Some 85 \<and>
   map_of (baseRiskScores hostedInputs (determineApplicableRisks hostedInputs)) ''promptInjection'' = Some 70"
proof -
  have risks: "determineApplicableRisks hostedInputs =
      [''hallucination'', ''promptInjection'', ''dataLeakage'']"
    by (simp add: determineApplicableRisks_def hallucinationRule_def promptInjectionRule_def
        dataLeakageRule_def hostedInputs_def emptyInputs_def spreadNewSet_def setAdd_def)
  have fields: "aiModel hostedInputs = Some ''thirdParty''"
    "accuracyReq hostedInputs = Some ''critical''" "useCase hostedInputs = None"
    by (simp_all add: hostedInputs_def emptyInputs_def)
  show ?thesis
    using baseRiskScores_total [of hostedInputs "determineApplicableRisks hostedInputs"]
    unfolding risks by (simp add: fields)
qed

subsection \<open>The two paths of the route\<close>

lemma POST_checklist_path:
  "hasRiskAssessment body \<Longrightarrow> checklistData body = Some cd \<Longrightarrow>
   POST True jsonParse calc catalog d body c =
     Ok200 (handleChecklistAssessment calc catalog (userInputs body)
              (determineApplicableRisks (userInputs body))
              (loadRelevantFrameworkData d (determineApplicableRisks (userInputs body))) cd c)"
  by (simp add: POST_def Let_def)

lemma POST_standard_path:
  "\<not> hasRiskAssessment body \<or> checklistData body = None \<Longrightarrow>
   POST True jsonParse calc catalog d body c =
     (case handleStandardAssessment jsonParse (userInputs body)
             (determineApplicableRisks (userInputs body))
             (map fst (loadRelevantFrameworkData d (determineApplicableRisks (userInputs body)))) c of
        Inl e \<Rightarrow> Error500 ''Failed to perform assessment''
      | Inr r \<Rightarrow> Ok200 r)"
  by (cases "hasRiskAssessment body"; cases "checklistData body") (simp_all add: POST_def Let_def)

lemma handleChecklistAssessment_assessment:
  "success (handleChecklistAssessment calc catalog ui applicableRisks frameworks cd c) \<and>
   assessment (handleChecklistAssessment calc catalog ui applicableRisks frameworks cd c) =
     Built (checklistAssessment calc catalog ui applicableRisks frameworks cd c)"
  by (simp add: handleChecklistAssessment_def)

subsection \<open>The overall compliance score\<close>

lemma foldl_plus_sum_list: "foldl (\<lambda>a b. a + b) a vs = a + sum_list (vs :: int list)"
  by (induction vs arbitrary: a) auto

lemma max_min_clamp: "max 10 (min 100 x) = clamp x 10 100"
  by (simp add: clamp_def max_def min_def)

lemma clamp_bounds: "10 \<le> clamp x 10 100 \<and> clamp x 10 100 \<le> 100"
  by (simp add: clamp_def)

lemma mathRound_bounds: "10 \<le> x \<Longrightarrow> x \<le> 100 \<Longrightarrow> 10 \<le> mathRound x \<and> mathRound x \<le> 100"
  unfolding mathRound_def by (simp add: le_floor_iff floor_le_iff) 

lemma overallScoreOf_clamp:
  "vs \<noteq> [] \<Longrightarrow> overallScoreOf vs t = Some (clamp (100 - average vs + of_int t / 2) 10 100)"
  by (simp add: overallScoreOf_def avgRiskScore_def average_def foldl_plus_sum_list max_min_clamp)

lemma overallScore_checklistAssessment:
  "overallScore (checklistAssessment calc catalog ui applicableRisks frameworks cd c) =
     map_option mathRound
       (overallScoreOf (map snd (adjustedRiskScores (calc (baseRiskScores ui applicableRisks) cd)))
          (totalRiskReduction (gapAnalysis (calc (baseRiskScores ui applicableRisks) cd))))"
  by (simp add: checklistAssessment_def Let_def)

text \<open>
  C1. In every checklist-path assessment with at least one adjusted score, the
  overall compliance score the handler computes is \<open>clamp(100 - average(adjusted
  scores) + totalRiskReduction / 2, 10, 100)\<close>, and the response returns it as an
  integer (by \<open>Math.round\<close>) that lies in [0,100].
\<close>

theorem overallScore_formula:
  assumes "adjustedRiskScores (calc (baseRiskScores ui applicableRisks) cd) \<noteq> []"
  shows "overallScoreOf (map snd (adjustedRiskScores (calc (baseRiskScores ui applicableRisks) cd)))
           (totalRiskReduction (gapAnalysis (calc (baseRiskScores ui applicableRisks) cd))) =
         Some (clamp (100 - average (map snd (adjustedRiskScores (calc (baseRiskScores ui applicableRisks) cd)))
                     + of_int (totalRiskReduction (gapAnalysis (calc (baseRiskScores ui applicableRisks) cd))) / 2)
                  10 100) \<and>
    (\<exists>n. overallScore (checklistAssessment calc catalog ui applicableRisks frameworks cd c) = Some n \<and>
     n = mathRound
           (clamp (100 - average (map snd (adjustedRiskScores (calc (baseRiskScores ui applicableRisks) cd)))
                     + of_int (totalRiskReduction (gapAnalysis (calc (baseRiskScores ui applicableRisks) cd))) / 2)
                  10 100) \<and>
     0 \<le> n \<and> n \<le> 100)"
proof -
  let ?g = "calc (baseRiskScores ui applicableRisks) cd"
  let ?x = "clamp (100 - average (map snd (adjustedRiskScores ?g))
                     + of_int (totalRiskReduction (gapAnalysis ?g)) / 2) 10 100"
  from assms have ne: "map snd (adjustedRiskScores ?g) \<noteq> []" by simp
  have "overallScore (checklistAssessment calc catalog ui applicableRisks frameworks cd c)
          = Some (mathRound ?x)"
    by (simp only: overallScore_checklistAssessment overallScoreOf_clamp [OF ne] option.map)
  moreover have "10 \<le> mathRound ?x \<and> mathRound ?x \<le> 100"
    using clamp_bounds mathRound_bounds by blast
  ultimately show ?thesis
    using overallScoreOf_clamp [OF ne] by simp
qed

lemma hosted_risks: "determineApplicableRisks hostedInputs =
      [''hallucination'', ''promptInjection'', ''dataLeakage'']"
    by (simp add: determineApplicableRisks_def hallucinationRule_def promptInjectionRule_def
        dataLeakageRule_def hostedInputs_def emptyInputs_def spreadNewSet_def setAdd_def)

lemma hosted_base: "baseRiskScores hostedInputs [''hallucination'', ''promptInjection'', ''dataLeakage'']
   = [(''hallucination'', 85), (''promptInjection'', 70), (''dataLeakage'', 80)]"
  by (simp add: baseRiskScores_def baseRiskScore_def isHostedModel_def hostedInputs_def emptyInputs_def)

lemma hosted_adjusted:
  "adjustedRiskScores (sampleCalc (baseRiskScores hostedInputs (determineApplicableRisks hostedInputs)) cd)
     = [(''hallucination'', 75), (''promptInjection'', 45), (''dataLeakage'', 65)]"
  by (simp add: hosted_risks hosted_base sampleCalc_def)

lemma hosted_reduction:
  "totalRiskReduction (gapAnalysis (sampleCalc b cd)) = 50"
  by (simp add: sampleCalc_def)

theorem overallScore_formula_witness:
  "adjustedRiskScores (sampleCalc (baseRiskScores hostedInputs (determineApplicableRisks hostedInputs)) noAnswers) \<noteq> [] \<and>
   overallScore (checklistAssessment sampleCalc [] hostedInputs (determineApplicableRisks hostedInputs)
                   [] noAnswers CompletionThrew) = Some 63"
proof -
  have ne: "adjustedRiskScores (sampleCalc (baseRiskScores hostedInputs
              (determineApplicableRisks hostedInputs)) noAnswers) \<noteq> []"
    by (simp add: hosted_adjusted)
  have v: "mathRound (clamp (100 - average [75, 45, 65] + of_int 50 / 2) 10 100) = 63"
    by (simp add: mathRound_def clamp_def average_def floor_eq_iff)
  from ne overallScore_formula [of sampleCalc hostedInputs "determineApplicableRisks hostedInputs"
      noAnswers "[]" "[]" CompletionThrew] v
  show ?thesis by (simp add: hosted_adjusted hosted_reduction)
qed


subsection \<open>Framework items of the checklist path\<close>

lemma collectStep_entryFramework:
  "collectStep frameworks ui acc entry =
     (case entryFramework frameworks entry of
        None \<Rightarrow> acc
      | Some fw \<Rightarrow>
          \<lparr>finosRiskMitigations = finosRiskMitigations acc @ mitigationsOf fw (snd entry),
           factorsAcc = factorsAcc acc @ factorsOf fw (snd entry),
           examplesAcc = examplesAcc acc @ examplesOf ui fw\<rparr>)"
  by (simp add: collectStep_def entryFramework_def Let_def split: option.splits)

lemma entryFramework_below: "snd entry < 50 \<Longrightarrow> entryFramework frameworks entry = None"
  by (simp add: entryFramework_def)

lemma entryFramework_Some:
  "entryFramework frameworks entry = Some fw \<Longrightarrow>
     50 \<le> snd entry \<and> fst entry \<in> {''hallucination'', ''promptInjection'', ''dataLeakage''} \<and>
     map_of frameworks (fst entry) = Some fw"
  by (auto simp: entryFramework_def frameworkKeyOf_def split: if_splits option.splits)

lemma foldl_collect_mitigations:
  "finosRiskMitigations (foldl (collectStep frameworks ui) acc es) =
     finosRiskMitigations acc @
     concat (map (\<lambda>e. case entryFramework frameworks e of None \<Rightarrow> []
                        | Some fw \<Rightarrow> mitigationsOf fw (snd e)) es)"
  by (induction es arbitrary: acc) (auto simp: collectStep_entryFramework split: option.splits)

lemma foldl_collect_factors:
  "factorsAcc (foldl (collectStep frameworks ui) acc es) =
     factorsAcc acc @
     concat (map (\<lambda>e. case entryFramework frameworks e of None \<Rightarrow> []
                        | Some fw \<Rightarrow> factorsOf fw (snd e)) es)"
  by (induction es arbitrary: acc) (auto simp: collectStep_entryFramework split: option.splits)

lemma foldl_collect_examples:
  "examplesAcc (foldl (collectStep frameworks ui) acc es) =
     examplesAcc acc @
     concat (map (\<lambda>e. case entryFramework frameworks e of None \<Rightarrow> []
                        | Some fw \<Rightarrow> examplesOf ui fw) es)"
  by (induction es arbitrary: acc) (auto simp: collectStep_entryFramework split: option.splits)

lemma foldl_collect_filter:
  "foldl (collectStep frameworks ui) acc (filter (\<lambda>e. snd e \<ge> 50) es) =
   foldl (collectStep frameworks ui) acc es"
  by (induction es arbitrary: acc) (auto simp: collectStep_def Let_def)

lemma priority_mitigationsOf: "m \<in> set (mitigationsOf fw s) \<Longrightarrow> priority m = priorityFor s \<and> riskId m = fw_id fw"
  by (auto simp: mitigationsOf_def split: option.splits)

lemma relevance_factorsOf: "f \<in> set (factorsOf fw s) \<Longrightarrow> relevance f = priorityFor s \<and> cf_riskId f = fw_id fw"
  by (auto simp: factorsOf_def split: option.splits)

lemma riskId_examplesOf: "x \<in> set (examplesOf ui fw) \<Longrightarrow> ex_riskId x = fw_id fw"
  by (auto simp: examplesOf_def split: option.splits)

lemma in_concat_option:
  "m \<in> set (concat (map (\<lambda>e. case ef e of None \<Rightarrow> [] | Some fw \<Rightarrow> g fw e) es)) \<Longrightarrow>
     \<exists>e \<in> set es. \<exists>fw. ef e = Some fw \<and> m \<in> set (g fw e)"
  by (induction es) (auto split: option.splits)

lemma checklistAssessment_items:
  "riskMitigations (checklistAssessment calc catalog ui applicableRisks frameworks cd c) =
     finosRiskMitigations (collectFramework frameworks ui
        (adjustedRiskScores (calc (baseRiskScores ui applicableRisks) cd)))"
  "contributingFactors (checklistAssessment calc catalog ui applicableRisks frameworks cd c) =
     factorsAcc (collectFramework frameworks ui
        (adjustedRiskScores (calc (baseRiskScores ui applicableRisks) cd)))"
  "relevantExamples (checklistAssessment calc catalog ui applicableRisks frameworks cd c) =
     examplesAcc (collectFramework frameworks ui
        (adjustedRiskScores (calc (baseRiskScores ui applicableRisks) cd)))"
  by (simp_all add: checklistAssessment_def Let_def)

text \<open>
  C10. In the checklist path the FINOS mitigations, contributing factors and examples
  of the response come only from the categories whose adjusted score is at least 50:
  the three lists are those gathered from the entries with a score of 50 or more, and
  every item stems from such an entry and its framework. The priority of a mitigation
  and the relevance of a factor are High for a score of at least 70, Medium for at
  least 60, and Low otherwise.
\<close>

theorem framework_items_threshold:
  fixes calc catalog ui applicableRisks frameworks cd c
  defines "adjusted \<equiv> adjustedRiskScores (calc (baseRiskScores ui applicableRisks) cd)"
  defines "r \<equiv> checklistAssessment calc catalog ui applicableRisks frameworks cd c"
  shows
    "riskMitigations r =
       finosRiskMitigations (collectFramework frameworks ui (filter (\<lambda>e. snd e \<ge> 50) adjusted)) \<and>
     contributingFactors r =
       factorsAcc (collectFramework frameworks ui (filter (\<lambda>e. snd e \<ge> 50) adjusted)) \<and>
     relevantExamples r =
       examplesAcc (collectFramework frameworks ui (filter (\<lambda>e. snd e \<ge> 50) adjusted)) \<and>
     (\<forall>m \<in> set (riskMitigations r). \<exists>e \<in> set adjusted. \<exists>fw.
         snd e \<ge> 50 \<and> map_of frameworks (fst e) = Some fw \<and> riskId m = fw_id fw \<and>
         priority m = (if snd e \<ge> 70 then ''High'' else if snd e \<ge> 60 then ''Medium'' else ''Low'')) \<and>
     (\<forall>f \<in> set (contributingFactors r). \<exists>e \<in> set adjusted. \<exists>fw.
         snd e \<ge> 50 \<and> map_of frameworks (fst e) = Some fw \<and> cf_riskId f = fw_id fw \<and>
         relevance f = (if snd e \<ge> 70 then ''High'' else if snd e \<ge> 60 then ''Medium'' else ''Low'')) \<and>
     (\<forall>x \<in> set (relevantExamples r). \<exists>e \<in> set adjusted. \<exists>fw.
         snd e \<ge> 50 \<and> map_of frameworks (fst e) = Some fw \<and> ex_riskId x = fw_id fw)"
proof -
  have eqs: "collectFramework frameworks ui (filter (\<lambda>e. snd e \<ge> 50) adjusted) =
      collectFramework frameworks ui adjusted"
    by (simp add: collectFramework_def foldl_collect_filter)
  have m: "\<exists>e \<in> set adjusted. \<exists>fw.
         snd e \<ge> 50 \<and> map_of frameworks (fst e) = Some fw \<and> riskId m = fw_id fw \<and>
         priority m = (if snd e \<ge> 70 then ''High'' else if snd e \<ge> 60 then ''Medium'' else ''Low'')"
    if "m \<in> set (riskMitigations r)" for m
  proof -
    from that obtain e fw where e: "e \<in> set adjusted" "entryFramework frameworks e = Some fw"
        "m \<in> set (mitigationsOf fw (snd e))"
      using in_concat_option [where m = m and ef = "entryFramework frameworks"
          and g = "\<lambda>fw e. mitigationsOf fw (snd e)" and es = adjusted]
      by (auto simp: r_def adjusted_def checklistAssessment_items collectFramework_def
          foldl_collect_mitigations)
    from entryFramework_Some [OF e(2)] priority_mitigationsOf [OF e(3)] e(1)
    show ?thesis by (auto simp: priorityFor_def)
  qed
  have f: "\<exists>e \<in> set adjusted. \<exists>fw.
         snd e \<ge> 50 \<and> map_of frameworks (fst e) = Some fw \<and> cf_riskId f = fw_id fw \<and>
         relevance f = (if snd e \<ge> 70 then ''High'' else if snd e \<ge> 60 then ''Medium'' else ''Low'')"
    if "f \<in> set (contributingFactors r)" for f
  proof -
    from that obtain e fw where e: "e \<in> set adjusted" "entryFramework frameworks e = Some fw"
        "f \<in> set (factorsOf fw (snd e))"
      using in_concat_option [where m = f and ef = "entryFramework frameworks"
          and g = "\<lambda>fw e. factorsOf fw (snd e)" and es = adjusted]
      by (auto simp: r_def adjusted_def checklistAssessment_items collectFramework_def
          foldl_collect_factors)
    from entryFramework_Some [OF e(2)] relevance_factorsOf [OF e(3)] e(1)
    show ?thesis by (auto simp: priorityFor_def)
  qed
  have x: "\<exists>e \<in> set adjusted. \<exists>fw.
         snd e \<ge> 50 \<and> map_of frameworks (fst e) = Some fw \<and> ex_riskId x = fw_id fw"
    if "x \<in> set (relevantExamples r)" for x
  proof -
    from that obtain e fw where e: "e \<in> set adjusted" "entryFramework frameworks e = Some fw"
        "x \<in> set (examplesOf ui fw)"
      using in_concat_option [where m = x and ef = "entryFramework frameworks"
          and g = "\<lambda>fw e. examplesOf ui fw" and es = adjusted]
      by (auto simp: r_def adjusted_def checklistAssessment_items collectFramework_def
          foldl_collect_examples)
    from entryFramework_Some [OF e(2)] riskId_examplesOf [OF e(3)] e(1)
    show ?thesis by auto
  qed
  have a: "riskMitigations r =
       finosRiskMitigations (collectFramework frameworks ui (filter (\<lambda>e. snd e \<ge> 50) adjusted))"
    "contributingFactors r =
       factorsAcc (collectFramework frameworks ui (filter (\<lambda>e. snd e \<ge> 50) adjusted))"
    "relevantExamples r =
       examplesAcc (collectFramework frameworks ui (filter (\<lambda>e. snd e \<ge> 50) adjusted))"
    using eqs by (simp_all add: r_def adjusted_def checklistAssessment_items)
  from a m f x show ?thesis by blast
qed

lemma hosted_frameworks:
  "loadRelevantFrameworkData sampleDataDir (determineApplicableRisks hostedInputs) =
     [(''hallucination'', sampleFramework ''AIR-OP-004''),
      (''promptInjection'', sampleFramework ''AIR-SEC-010''),
      (''dataLeakage'', sampleFramework ''AIR-RC-001'')]"
  by (simp add: hosted_risks loadRelevantFrameworkData_def sampleDataDir_def)

theorem framework_items_threshold_witness:
  "riskMitigations (checklistAssessment sampleCalc [] hostedInputs (determineApplicableRisks hostedInputs)
      (loadRelevantFrameworkData sampleDataDir (determineApplicableRisks hostedInputs))
      noAnswers CompletionThrew) =
   [\<lparr>riskId = ''AIR-OP-004'', riskName = ''Risk'', mitigationId = ''AIR-PREV-005'',
      mitigationName = ''System Acceptance Testing'', priority = ''High'', summary = ''Test the system''\<rparr>,
    \<lparr>riskId = ''AIR-RC-001'', riskName = ''Risk'', mitigationId = ''AIR-PREV-005'',
      mitigationName = ''System Acceptance Testing'', priority = ''Medium'', summary = ''Test the system''\<rparr>] \<and>
   contributingFactors (checklistAssessment sampleCalc [] hostedInputs (determineApplicableRisks hostedInputs)
      (loadRelevantFrameworkData sampleDataDir (determineApplicableRisks hostedInputs))
      noAnswers CompletionThrew) =
   [\<lparr>cf_riskId = ''AIR-OP-004'', factor = ''Factor'', relevance = ''High'', explanation = ''Why''\<rparr>,
    \<lparr>cf_riskId = ''AIR-RC-001'', factor = ''Factor'', relevance = ''Medium'', explanation = ''Why''\<rparr>] \<and>
   map ex_riskId (relevantExamples (checklistAssessment sampleCalc [] hostedInputs
      (determineApplicableRisks hostedInputs)
      (loadRelevantFrameworkData sampleDataDir (determineApplicableRisks hostedInputs))
      noAnswers CompletionThrew)) = [''AIR-OP-004'', ''AIR-RC-001'']"
  using framework_items_threshold [where calc = sampleCalc and catalog = "[]" and ui = hostedInputs
      and applicableRisks = "determineApplicableRisks hostedInputs"
      and frameworks = "loadRelevantFrameworkData sampleDataDir (determineApplicableRisks hostedInputs)"
      and cd = noAnswers and c = CompletionThrew]
  by (simp add: hosted_adjusted hosted_frameworks collectFramework_def
      collectStep_def frameworkKeyOf_def mitigationsOf_def factorsOf_def examplesOf_def
      sampleFramework_def priorityFor_def Let_def)


subsection \<open>The fallback of the standard path\<close>

lemma parseAssessment_None:
  assumes "case jsonParse (extractJsonFromResponse (orElse responseText ''{}'')) of
             None \<Rightarrow> True
           | Some j \<Rightarrow> \<not> hasField j ''overallScore'' \<or> \<not> hasField j ''riskScores''"
  shows "parseAssessment jsonParse responseText = None"
  using assms
  by (auto simp: parseAssessment_def hasField_def Let_def split: option.splits sum.splits)

text \<open>
  C5. When the response of the text-generation service in the standard path does not
  parse, or the parsed value lacks a required field (\<open>overallScore\<close>, \<open>riskScores\<close>), the
  handler raises no error: it returns a success response whose assessment is the
  hardcoded fallback, with compliance score 45 for restricted data sensitivity, 55 for
  confidential, 60 for a third-party or API-based model, and 70 otherwise, and with the
  canned analysis text.
\<close>

theorem standard_fallback:
  assumes "case jsonParse (extractJsonFromResponse (orElse responseText ''{}'')) of
             None \<Rightarrow> True
           | Some j \<Rightarrow> \<not> hasField j ''overallScore'' \<or> \<not> hasField j ''riskScores''"
  shows "\<exists>r a. handleStandardAssessment jsonParse ui applicableRisks frameworkKeys
                  (Completion responseText usage) = Inr r \<and>
           success r \<and> assessment r = Built a \<and>
           overallScore a =
             Some (if dataSensitivity ui = Some ''restricted'' then 45
                   else if dataSensitivity ui = Some ''confidential'' then 55
                   else if aiModel ui = Some ''thirdParty'' \<or> aiModel ui = Some ''apiBased'' then 60
                   else 70) \<and>
           analysis a = fallbackAnalysis ui applicableRisks \<and>
           map mitigationId (riskMitigations a) = [''AIR-PREV-005''] \<and>
           contributingFactors a = [] \<and> relevantExamples a = [] \<and>
           assessedRisks a = applicableRisks"
  using assms parseAssessment_None [of jsonParse responseText]
  by (simp add: handleStandardAssessment_def fallbackAssessment_def fallbackComplianceScore_def)

theorem standard_fallback_witness:
  "(\<exists>r a. handleStandardAssessment rejectingParser hostedInputs [''promptInjection''] []
             (Completion (Some ''no json here'') None) = Inr r \<and>
           success r \<and> assessment r = Built a \<and> overallScore a = Some 60 \<and>
           analysis a = ''Assessment completed for your industry AI system using thirdParty for use case. The system requires attention in the assessed risk areas based on data sensitivity level (not specified) and accuracy requirements (critical). Review the FINOS framework recommendations for promptInjection risks.'') \<and>
   (\<exists>r a. handleStandardAssessment analysisOnlyParser emptyInputs [''promptInjection''] []
             (Completion None None) = Inr r \<and>
           success r \<and> assessment r = Built a \<and> overallScore a = Some 70)"
proof -
  have f: "aiModel hostedInputs = Some ''thirdParty''" "dataSensitivity hostedInputs = None"
    "industry hostedInputs = None" "useCase hostedInputs = None"
    "accuracyReq hostedInputs = Some ''critical''"
    "aiModel emptyInputs = None" "dataSensitivity emptyInputs = None"
    by (simp_all add: hostedInputs_def emptyInputs_def)
  have h1: "case rejectingParser (extractJsonFromResponse (orElse (Some ''no json here'') ''{}'')) of
             None \<Rightarrow> True
           | Some j \<Rightarrow> \<not> hasField j ''overallScore'' \<or> \<not> hasField j ''riskScores''"
    by (simp add: rejectingParser_def)
  have h2: "case analysisOnlyParser (extractJsonFromResponse (orElse None ''{}'')) of
             None \<Rightarrow> True
           | Some j \<Rightarrow> \<not> hasField j ''overallScore'' \<or> \<not> hasField j ''riskScores''"
    by (simp add: analysisOnlyParser_def hasField_def truthyProp_def)
  from h1 standard_fallback [of rejectingParser "Some ''no json here''" hostedInputs
      "[''promptInjection'']" "[]" None]
  have 1: "\<exists>r a. handleStandardAssessment rejectingParser hostedInputs [''promptInjection''] []
             (Completion (Some ''no json here'') None) = Inr r \<and>
           success r \<and> assessment r = Built a \<and> overallScore a = Some 60 \<and>
           analysis a = ''Assessment completed for your industry AI system using thirdParty for use case. The system requires attention in the assessed risk areas based on data sensitivity level (not specified) and accuracy requirements (critical). Review the FINOS framework recommendations for promptInjection risks.''"
    by (auto simp: f fallbackAnalysis_def orElse_def)
  from h2 standard_fallback [of analysisOnlyParser None emptyInputs
      "[''promptInjection'']" "[]" None]
  have 2: "\<exists>r a. handleStandardAssessment analysisOnlyParser emptyInputs [''promptInjection''] []
             (Completion None None) = Inr r \<and>
           success r \<and> assessment r = Built a \<and> overallScore a = Some 70"
    by (auto simp: f)
  from 1 2 show ?thesis by blast
qed


subsection \<open>The submission of the checklist form\<close>

lemma responsesFor_pushResponse:
  "responsesFor c (pushResponse st cd q) =
     responsesFor c cd @ (if category q = c then [responseOf st q] else [])"
  by (cases c; cases "category q")
    (simp_all add: pushResponse_def responseOf_def responsesFor_def Let_def)

lemma responsesFor_foldl:
  "responsesFor c (foldl (pushResponse st) cd qs) =
     responsesFor c cd @ map (responseOf st) (filter (\<lambda>q. category q = c) qs)"
  by (induction qs arbitrary: cd) (simp_all add: responsesFor_pushResponse)

lemma responsesFor_organize:
  "responsesFor c (organizeResponses catalog st) =
     map (responseOf st) (filter (\<lambda>q. category q = c) catalog)"
  by (simp add: organizeResponses_def responsesFor_foldl) (simp add: responsesFor_def split: RiskCategory.splits)

lemma allResponses_responsesFor:
  "allResponses cd = responsesFor Hallucination cd @ responsesFor PromptInjection cd @
     responsesFor DataLeakage cd"
  by (simp add: allResponses_def responsesFor_def)

lemma filter_distinct_key:
  "distinct (map f xs) \<Longrightarrow> x \<in> set xs \<Longrightarrow> filter (\<lambda>y. f y = f x) xs = [x]"
proof (induction xs)
  case Nil
  then show ?case by simp
next
  case (Cons a xs)
  show ?case
  proof (cases "a = x")
    case True
    with Cons.prems have "\<forall>y \<in> set xs. f y \<noteq> f x" by (auto simp: image_iff)
    then have "filter (\<lambda>y. f y = f x) xs = []" by (simp add: filter_empty_conv)
    with True show ?thesis by simp
  next
    case False
    with Cons.prems have "x \<in> set xs" "f a \<noteq> f x" by (auto simp: image_iff)
    with Cons show ?thesis by simp
  qed
qed

lemma filter_id_category:
  assumes "distinct (map id_q catalog)" "q \<in> set catalog"
  shows "filter (\<lambda>r. questionId r = id_q q)
           (map (responseOf st) (filter (\<lambda>q'. category q' = c) catalog)) =
         (if category q = c then [responseOf st q] else [])"
proof -
  have "filter (\<lambda>r. questionId r = id_q q)
           (map (responseOf st) (filter (\<lambda>q'. category q' = c) catalog)) =
        map (responseOf st) (filter (\<lambda>q'. category q' = c) (filter (\<lambda>q'. id_q q' = id_q q) catalog))"
    by (simp add: filter_map comp_def responseOf_def conj_commute)
  also have "filter (\<lambda>q'. id_q q' = id_q q) catalog = [q]"
    using assms by (rule filter_distinct_key)
  finally show ?thesis by simp
qed

lemma filter_allResponses:
  assumes "distinct (map id_q catalog)" "q \<in> set catalog"
  shows "filter (\<lambda>r. questionId r = id_q q) (allResponses (organizeResponses catalog st)) =
           [responseOf st q]"
  by (cases "category q")
    (simp_all add: allResponses_responsesFor responsesFor_organize filter_id_category [OF assms])

lemma set_allResponses:
  "set (allResponses (organizeResponses catalog st)) = responseOf st ` set catalog"
proof
  show "set (allResponses (organizeResponses catalog st)) \<subseteq> responseOf st ` set catalog"
    by (auto simp: allResponses_responsesFor responsesFor_organize)
  show "responseOf st ` set catalog \<subseteq> set (allResponses (organizeResponses catalog st))"
  proof
    fix r assume "r \<in> responseOf st ` set catalog"
    then obtain q where q: "q \<in> set catalog" "r = responseOf st q" by blast
    then show "r \<in> set (allResponses (organizeResponses catalog st))"
      by (cases "category q") (simp_all add: allResponses_responsesFor responsesFor_organize)
  qed
qed

text \<open>
  C9. The checklist form refuses to submit unless every catalog question has an
  answer: when some question id lacks a response, \<open>submitChecklist\<close> sends no request
  and changes nothing but the alert it shows. A request it does send carries, for a
  catalog with distinct question ids, exactly one answer per question id, and answers
  for no other id.
\<close>

theorem submitChecklist_complete_only:
  "((\<exists>q \<in> set catalog. responses st (id_q q) = None) \<longrightarrow>
      submitChecklist catalog formData outcome st =
        st\<lparr>alerts := alerts st @ [''Please answer all questions before submitting'']\<rparr> \<and>
      requests (submitChecklist catalog formData outcome st) = requests st) \<and>
   (\<not> (\<exists>q \<in> set catalog. responses st (id_q q) = None) \<longrightarrow>
      requests (submitChecklist catalog formData outcome st) =
        requests st @ [\<lparr>userInputs = formData, hasRiskAssessment = True,
                        checklistData = Some (organizeResponses catalog st)\<rparr>] \<and>
      questionId ` set (allResponses (organizeResponses catalog st)) = id_q ` set catalog \<and>
      (distinct (map id_q catalog) \<longrightarrow>
         (\<forall>q \<in> set catalog. \<exists>a. responses st (id_q q) = Some a \<and>
            filter (\<lambda>r. questionId r = id_q q) (allResponses (organizeResponses catalog st)) =
              [\<lparr>questionId = id_q q, answer = Some a\<rparr>])))"
proof -
  have c: "isFormComplete catalog st \<longleftrightarrow> \<not> (\<exists>q \<in> set catalog. responses st (id_q q) = None)"
    by (simp add: isFormComplete_def list_all_iff)
  have inc: "submitChecklist catalog formData outcome st =
          st\<lparr>alerts := alerts st @ [''Please answer all questions before submitting'']\<rparr> \<and>
        requests (submitChecklist catalog formData outcome st) = requests st"
    if "\<exists>q \<in> set catalog. responses st (id_q q) = None"
    using that c by (simp add: submitChecklist_def)
  have req: "requests (submitChecklist catalog formData outcome st) =
          requests st @ [\<lparr>userInputs = formData, hasRiskAssessment = True,
                          checklistData = Some (organizeResponses catalog st)\<rparr>]"
    if "\<not> (\<exists>q \<in> set catalog. responses st (id_q q) = None)"
    using that c by (cases outcome) (simp_all add: submitChecklist_def Let_def)
  have one: "\<exists>a. responses st (id_q q) = Some a \<and>
           filter (\<lambda>r. questionId r = id_q q) (allResponses (organizeResponses catalog st)) =
             [\<lparr>questionId = id_q q, answer = Some a\<rparr>]"
    if "\<not> (\<exists>q \<in> set catalog. responses st (id_q q) = None)" "distinct (map id_q catalog)"
      "q \<in> set catalog" for q
  proof -
    from that obtain a where a: "responses st (id_q q) = Some a" by auto
    with filter_allResponses [OF that(2) that(3), of st] show ?thesis
      by (simp add: responseOf_def)
  qed
  have ids: "questionId ` set (allResponses (organizeResponses catalog st)) = id_q ` set catalog"
    by (simp add: set_allResponses image_image responseOf_def)
  from inc req one ids show ?thesis by blast
qed

theorem submitChecklist_complete_only_witness:
  "distinct (map id_q sampleCatalog) \<and>
   responses halfAnsweredState 2 = None \<and>
   submitChecklist sampleCatalog emptyInputs FetchThrew halfAnsweredState =
     halfAnsweredState\<lparr>alerts := [''Please answer all questions before submitting'']\<rparr> \<and>
   requests (submitChecklist sampleCatalog emptyInputs FetchThrew halfAnsweredState) = [] \<and>
   responses answeredState 1 = Some Yes \<and> responses answeredState 2 = Some No \<and>
   map checklistData (requests (submitChecklist sampleCatalog emptyInputs FetchThrew answeredState)) =
     [Some \<lparr>hallucination = [\<lparr>questionId = 2, answer = Some No\<rparr>],
            promptInjection = [\<lparr>questionId = 1, answer = Some Yes\<rparr>],
            dataLeakage = []\<rparr>]"
proof -
  have d: "distinct (map id_q sampleCatalog)"
    by (simp add: sampleCatalog_def)
  have org: "organizeResponses sampleCatalog answeredState =
      \<lparr>hallucination = [\<lparr>questionId = 2, answer = Some No\<rparr>],
       promptInjection = [\<lparr>questionId = 1, answer = Some Yes\<rparr>],
       dataLeakage = []\<rparr>"
    by (simp add: organizeResponses_def sampleCatalog_def answeredState_def pushResponse_def Let_def)
  have h: "\<exists>q \<in> set sampleCatalog. responses halfAnsweredState (id_q q) = None"
    by (simp add: sampleCatalog_def halfAnsweredState_def)
  have a: "\<not> (\<exists>q \<in> set sampleCatalog. responses answeredState (id_q q) = None)"
    by (simp add: sampleCatalog_def answeredState_def)
  have r: "responses halfAnsweredState 2 = None" "alerts halfAnsweredState = []"
    "requests halfAnsweredState = []" "requests answeredState = []"
    "responses answeredState 1 = Some Yes" "responses answeredState 2 = Some No"
    by (simp_all add: halfAnsweredState_def answeredState_def)
  from submitChecklist_complete_only [of sampleCatalog halfAnsweredState emptyInputs FetchThrew] h
  have 1: "submitChecklist sampleCatalog emptyInputs FetchThrew halfAnsweredState =
     halfAnsweredState\<lparr>alerts := [''Please answer all questions before submitting'']\<rparr> \<and>
     requests (submitChecklist sampleCatalog emptyInputs FetchThrew halfAnsweredState) = []"
    by (simp add: r)
  from submitChecklist_complete_only [of sampleCatalog answeredState emptyInputs FetchThrew] a d
  have 2: "map checklistData (requests (submitChecklist sampleCatalog emptyInputs FetchThrew answeredState)) =
     [Some \<lparr>hallucination = [\<lparr>questionId = 2, answer = Some No\<rparr>],
            promptInjection = [\<lparr>questionId = 1, answer = Some Yes\<rparr>],
            dataLeakage = []\<rparr>]"
    by (simp add: r org)
  from d r 1 2 show ?thesis by simp
qed

lemma isResponseRecord_responseJson:
  "answer r = Some a \<Longrightarrow> isResponseRecord (responseJson r)"
  by (cases a) (simp_all add: isResponseRecord_def responseJson_def answerString_def)

lemma length_by_category:
  "length (filter (\<lambda>q. category q = Hallucination) qs) +
   length (filter (\<lambda>q. category q = PromptInjection) qs) +
   length (filter (\<lambda>q. category q = DataLeakage) qs) = length qs"
proof (induction qs)
  case Nil
  then show ?case by simp
next
  case (Cons q qs)
  then show ?case by (cases "category q") simp_all
qed

lemma answered_responsesFor:
  assumes "isFormComplete catalog st"
  shows "list_all isResponseRecord (map responseJson (responsesFor c (organizeResponses catalog st)))"
proof -
  have "isResponseRecord (responseJson (responseOf st q))" if "q \<in> set catalog" for q
  proof -
    from assms that obtain a where "responses st (id_q q) = Some a"
      by (auto simp: isFormComplete_def list_all_iff)
    then show ?thesis
      by (simp add: isResponseRecord_responseJson [of _ a] responseOf_def)
  qed
  then show ?thesis
    by (simp add: responsesFor_organize list_all_iff)
qed

text \<open>
  C7, as amended. The checklist submission the form sends to the assessment endpoint
  is an object with the three keys \<open>hallucination\<close>, \<open>promptInjection\<close> and
  \<open>dataLeakage\<close>, each an ordered list of records \<open>{questionId, answer}\<close> with an integer
  id and an answer among yes, no and na; the three lists together hold one record per
  catalog question, each list in catalog order, with the answer given in the form.
\<close>

theorem checklist_submission_shape:
  assumes "isFormComplete catalog st"
  shows
    "requests (submitChecklist catalog formData outcome st) =
       requests st @ [\<lparr>userInputs = formData, hasRiskAssessment = True,
                       checklistData = Some (organizeResponses catalog st)\<rparr>] \<and>
     (\<exists>h p d. checklistDataJson (organizeResponses catalog st) =
                 JObj [(''hallucination'', h), (''promptInjection'', p), (''dataLeakage'', d)] \<and>
               isResponseList h \<and> isResponseList p \<and> isResponseList d) \<and>
     length (allResponses (organizeResponses catalog st)) = length catalog \<and>
     (\<forall>c. map questionId (responsesFor c (organizeResponses catalog st)) =
            map id_q (filter (\<lambda>q. category q = c) catalog)) \<and>
     (\<forall>r \<in> set (allResponses (organizeResponses catalog st)).
        answer r = responses st (questionId r) \<and> answer r \<noteq> None)"
proof -
  have req: "requests (submitChecklist catalog formData outcome st) =
       requests st @ [\<lparr>userInputs = formData, hasRiskAssessment = True,
                       checklistData = Some (organizeResponses catalog st)\<rparr>]"
    using assms by (cases outcome) (simp_all add: submitChecklist_def Let_def)
  have shape: "\<exists>h p d. checklistDataJson (organizeResponses catalog st) =
                 JObj [(''hallucination'', h), (''promptInjection'', p), (''dataLeakage'', d)] \<and>
               isResponseList h \<and> isResponseList p \<and> isResponseList d"
    using answered_responsesFor [OF assms, of Hallucination]
      answered_responsesFor [OF assms, of PromptInjection]
      answered_responsesFor [OF assms, of DataLeakage]
    by (simp add: checklistDataJson_def isResponseList_def responsesFor_def)
  have len: "length (allResponses (organizeResponses catalog st)) = length catalog"
    using length_by_category [of catalog]
    by (simp add: allResponses_responsesFor responsesFor_organize)
  have ord: "map questionId (responsesFor c (organizeResponses catalog st)) =
            map id_q (filter (\<lambda>q. category q = c) catalog)" for c
    by (simp add: responsesFor_organize responseOf_def comp_def)
  have ans: "answer r = responses st (questionId r) \<and> answer r \<noteq> None"
    if "r \<in> set (allResponses (organizeResponses catalog st))" for r
    using that assms
    by (auto simp: set_allResponses responseOf_def isFormComplete_def list_all_iff)
  from req shape len ord ans show ?thesis by blast
qed

theorem checklist_submission_shape_witness:
  "isFormComplete sampleCatalog answeredState \<and>
   length (allResponses (organizeResponses sampleCatalog answeredState)) = 2 \<and>
   map questionId (hallucination (organizeResponses sampleCatalog answeredState)) = [2] \<and>
   map questionId (promptInjection (organizeResponses sampleCatalog answeredState)) = [1] \<and>
   map questionId (dataLeakage (organizeResponses sampleCatalog answeredState)) = []"
proof -
  have c: "isFormComplete sampleCatalog answeredState"
    by (simp add: isFormComplete_def sampleCatalog_def answeredState_def)
  have l: "length sampleCatalog = 2" by (simp add: sampleCatalog_def)
  have f: "map id_q (filter (\<lambda>q. category q = Hallucination) sampleCatalog) = [2]"
    "map id_q (filter (\<lambda>q. category q = PromptInjection) sampleCatalog) = [1]"
    "map id_q (filter (\<lambda>q. category q = DataLeakage) sampleCatalog) = []"
    by (simp_all add: sampleCatalog_def)
  from checklist_submission_shape [OF c, of emptyInputs FetchThrew]
  have "length (allResponses (organizeResponses sampleCatalog answeredState)) = length sampleCatalog"
    and "\<forall>c. map questionId (responsesFor c (organizeResponses sampleCatalog answeredState)) =
            map id_q (filter (\<lambda>q. category q = c) sampleCatalog)"
    by blast+
  then show ?thesis
    using c l f
    by (simp add: responsesFor_def split: RiskCategory.splits)
qed

text \<open>
  C7, as stated, fails: the submission for a two-question catalog is an object keyed
  by category, not an ordered list of answer records.
\<close>

theorem checklist_submission_counterexample:
  "checklistDataJson (organizeResponses sampleCatalog answeredState) =
     JObj [(''hallucination'', JArr [JObj [(''questionId'', JNum 2), (''answer'', JStr ''no'')]]),
           (''promptInjection'', JArr [JObj [(''questionId'', JNum 1), (''answer'', JStr ''yes'')]]),
           (''dataLeakage'', JArr [])] \<and>
   \<not> isResponseList (checklistDataJson (organizeResponses sampleCatalog answeredState))"
  by (simp add: checklistDataJson_def organizeResponses_def sampleCatalog_def answeredState_def
      pushResponse_def Let_def responseJson_def answerString_def isResponseList_def)


subsection \<open>Gap analysis, from the specification\<close>













lemma precedes_key:
  "(\<lambda>a b. (- weight a, id_q a) \<le> (- weight b, id_q b)) = precedes"
  by (auto simp: fun_eq_iff precedes_def less_eq_prod_def)

lemma sorted_missingControls: "sorted_wrt precedes (missingControls gap)"
proof -
  have "sorted (map (\<lambda>q. (- weight q, id_q q)) (missingControls gap))"
    unfolding missingControls_def by (rule sorted_sort_key)
  then show ?thesis
    by (simp only: sorted_map precedes_key)
qed

text \<open>
  C6. \<open>generateGapRecommendations\<close> yields exactly one recommendation per
  not-implemented question, carrying the question's purpose text and category, in
  order of descending weight with ties broken by ascending question id; two missing
  controls of weight 30 with ids 3 and 7 come out in the order id 3, id 7.
\<close>

theorem generateGapRecommendations_order:
  "generateGapRecommendations gap =
     map (\<lambda>q. \<lparr>questionPurpose = purpose q, rec_category = category q, rec_weight = weight q\<rparr>)
       (missingControls gap) \<and>
   mset (missingControls gap) =
     mset (map fst (filter (\<lambda>e. \<not> implemented (snd e)) (sg_implementationStatus gap))) \<and>
   length (generateGapRecommendations gap) =
     length (filter (\<lambda>e. \<not> implemented (snd e)) (sg_implementationStatus gap)) \<and>
   sorted_wrt precedes (missingControls gap) \<and>
   (\<forall>qa qb. id_q qa = 3 \<and> id_q qb = 7 \<and> weight qa = 30 \<and> weight qb = 30 \<and>
      (map fst (filter (\<lambda>e. \<not> implemented (snd e)) (sg_implementationStatus gap)) = [qa, qb] \<or>
       map fst (filter (\<lambda>e. \<not> implemented (snd e)) (sg_implementationStatus gap)) = [qb, qa]) \<longrightarrow>
      missingControls gap = [qa, qb])"
proof -
  have t: "\<forall>qa qb. id_q qa = 3 \<and> id_q qb = 7 \<and> weight qa = 30 \<and> weight qb = 30 \<and>
      (map fst (filter (\<lambda>e. \<not> implemented (snd e)) (sg_implementationStatus gap)) = [qa, qb] \<or>
       map fst (filter (\<lambda>e. \<not> implemented (snd e)) (sg_implementationStatus gap)) = [qb, qa]) \<longrightarrow>
      missingControls gap = [qa, qb]"
    by (auto simp: missingControls_def less_eq_prod_def)
  have m: "mset (missingControls gap) =
     mset (map fst (filter (\<lambda>e. \<not> implemented (snd e)) (sg_implementationStatus gap)))"
    by (simp add: missingControls_def)
  have l: "length (generateGapRecommendations gap) =
     length (filter (\<lambda>e. \<not> implemented (snd e)) (sg_implementationStatus gap))"
    by (simp add: generateGapRecommendations_def missingControls_def)
  have d: "generateGapRecommendations gap =
     map (\<lambda>q. \<lparr>questionPurpose = purpose q, rec_category = category q, rec_weight = weight q\<rparr>)
       (missingControls gap)"
    by (simp add: generateGapRecommendations_def)
  from d m l sorted_missingControls [of gap] t show ?thesis by (intro conjI)
qed

theorem generateGapRecommendations_order_witness:
  "generateGapRecommendations (computeGapAnalysis 10 tieCatalog hallucinationBase [5 \<mapsto> Yes]) =
     [\<lparr>questionPurpose = ''Input filtering'', rec_category = PromptInjection, rec_weight = 30\<rparr>,
      \<lparr>questionPurpose = ''Data masking'', rec_category = DataLeakage, rec_weight = 30\<rparr>] \<and>
   map id_q (missingControls (computeGapAnalysis 10 tieCatalog hallucinationBase [5 \<mapsto> Yes])) = [3, 7]"
proof -
  let ?gap = "computeGapAnalysis 10 tieCatalog hallucinationBase [5 \<mapsto> Yes]"
  let ?q3 = "\<lparr>id_q = 3, category = PromptInjection, question = ''Do you filter prompts?'',
       purpose = ''Input filtering'', weight = 30\<rparr>"
  let ?q7 = "\<lparr>id_q = 7, category = DataLeakage, question = ''Do you mask data?'',
       purpose = ''Data masking'', weight = 30\<rparr>"
  have f: "map fst (filter (\<lambda>e. \<not> implemented (snd e)) (sg_implementationStatus ?gap)) = [?q7, ?q3]"
    by (simp add: computeGapAnalysis_def tieCatalog_def statusOf_def)
  from generateGapRecommendations_order [of ?gap] f
  have "missingControls ?gap = [?q3, ?q7]"
    and "generateGapRecommendations ?gap =
     map (\<lambda>q. \<lparr>questionPurpose = purpose q, rec_category = category q, rec_weight = weight q\<rparr>)
       (missingControls ?gap)"
    by simp_all
  then show ?thesis by simp
qed


end
